theory Spec2Isabelle
  imports Main "HOL-Library.Word"
begin

unbundle bit_operations_syntax

section \<open>The advanced USB driver (examples/advanced_features/advanced_driver.c)\<close>

subsection \<open>Data model\<close>

type_synonym u8 = "8 word"
type_synonym u32 = "32 word"

text \<open>
  The errno numbers come from the kernel headers (errno-base.h and errno.h of
  asm-generic), which the driver includes and which are not part of the repository.
  Their Linux values are used; only their being distinct and positive matters below.
\<close>

definition ENOENT :: int where "ENOENT = 2"
definition ENOMEM :: int where "ENOMEM = 12"
definition EFAULT :: int where "EFAULT = 14"
definition EBUSY :: int where "EBUSY = 16"
definition ENODEV :: int where "ENODEV = 19"
definition EINVAL :: int where "EINVAL = 22"
definition ECONNRESET :: int where "ECONNRESET = 104"
definition ESHUTDOWN :: int where "ESHUTDOWN = 108"

datatype device_state =
  STATE_IDLE | STATE_CONNECTING | STATE_CONNECTED | STATE_TRANSFERRING | STATE_ERROR

datatype cmd_type = CMD_READ | CMD_WRITE | CMD_CONTROL | CMD_STATUS | CMD_RESET

text \<open>The enumerator values of \<open>enum cmd_type\<close>, as stored into a \<open>uint8_t\<close>.\<close>

fun cmd_code :: "cmd_type \<Rightarrow> u8" where
  "cmd_code CMD_READ = 0x01"
| "cmd_code CMD_WRITE = 0x02"
| "cmd_code CMD_CONTROL = 0x03"
| "cmd_code CMD_STATUS = 0x04"
| "cmd_code CMD_RESET = 0xFF"

datatype result_t = RESULT_OK | RESULT_BUSY | RESULT_NOMEM | RESULT_INVALID

text \<open>
  \<open>union data_packet\<close> is 64 bytes of storage; every view aliases the same bytes, so
  the model keeps the byte array and reads the frame view through offsets: the
  header is bytes 0..3 and the payload bytes 4..63.
\<close>

type_synonym data_packet = "u8 list"

definition frame_header :: "data_packet \<Rightarrow> u8 list" where
  "frame_header pkt = take 4 pkt"

definition frame_payload :: "data_packet \<Rightarrow> u8 list" where
  "frame_payload pkt = drop 4 pkt"

text \<open>
  \<open>memcpy(pkt->frame.payload, src, n)\<close>: the first \<open>n\<close> bytes at \<open>src\<close> replace
  the payload bytes 0..n-1. The caller hands over at least \<open>n\<close> readable bytes
  (C leaves a shorter source undefined).
\<close>

definition memcpy_payload :: "data_packet \<Rightarrow> u8 list \<Rightarrow> nat \<Rightarrow> data_packet" where
  "memcpy_payload pkt src n = take 4 pkt @ take n src @ drop (4 + n) pkt"

record device_config =
  name :: string
  timeout_ms :: int
  retry_count :: int
  auto_reconnect :: bool

text \<open>
  Pointers. A \<open>struct advanced_device *\<close> is either NULL or the address of the one
  device record, which the operations below receive and return as the store. A
  transfer buffer pointer is NULL or \<open>dev->tx_buffer.bytes\<close>. A callback pointer is
  the address of code outside the driver.
\<close>

datatype dev_ptr = DEV_NULL | DEV_PTR

datatype buf_ref = BUF_NULL | TX_BUFFER_BYTES

type_synonym fnptr = nat

record urb =
  status :: int
  transfer_buffer :: buf_ref
  transfer_buffer_length :: u32
  actual_length :: u32
  "context" :: dev_ptr

record advanced_device =
  state :: device_state
  last_result :: result_t
  tx_buffer :: data_packet
  rx_buffer :: data_packet
  ctrl :: u32
  config :: device_config
  bulk_in_addr :: u8
  bulk_out_addr :: u8
  bulk_in_size :: nat
  bulk_urb :: urb
  on_connect :: "fnptr option"
  on_disconnect :: "fnptr option"
  on_data :: "fnptr option"

text \<open>
  Calls that leave the driver are logged in program order. A submitted URB is logged
  with the bytes its transfer buffer holds at the moment of submission.
  Logging calls (\<open>pr_info\<close>, \<open>dev_info\<close>, \<open>dev_err\<close>) are left out.
\<close>

datatype urb_id = CTRL_URB | BULK_URB

datatype kcall =
    Spin_lock
  | Spin_unlock
  | Call_on_connect fnptr
  | Call_on_disconnect fnptr
  | Call_on_data fnptr buf_ref u32
  | Usb_submit_urb urb data_packet
  | Usb_set_intfdata dev_ptr
  | Cancel_work_sync
  | Cancel_delayed_work_sync
  | Usb_kill_urb urb_id
  | Usb_free_urb urb_id
  | Usb_put_dev
  | Kfree
  | Atomic_set_running int
  | Kthread_stop
  | Wait_for_completion
  | Hrtimer_cancel
  | Del_timer_sync
  | Tasklet_kill
  | Free_irq

text \<open>
  What the surroundings answer: the return value of \<open>usb_submit_urb\<close>, and what the
  code behind a callback pointer does to the device record it is handed.
\<close>

record extern =
  usb_submit_urb_ret :: int
  call_on_connect :: "fnptr \<Rightarrow> advanced_device \<Rightarrow> advanced_device"
  call_on_disconnect :: "fnptr \<Rightarrow> advanced_device \<Rightarrow> advanced_device"
  call_on_data :: "fnptr \<Rightarrow> buf_ref \<Rightarrow> u32 \<Rightarrow> advanced_device \<Rightarrow> advanced_device"

subsection \<open>Core functions\<close>

text \<open>
  \<open>send_command\<close>. \<open>size_t len\<close> is a natural number; the two header stores
  truncate to a byte and the \<open>int buffer_length\<close> of \<open>usb_fill_bulk_urb\<close> ends in the
  32-bit \<open>transfer_buffer_length\<close>, so \<open>4 + len\<close> is reduced modulo \<open>2^32\<close> there.
  \<open>data\<close> is \<open>None\<close> for a NULL pointer.
\<close>

definition build_header :: "cmd_type \<Rightarrow> nat \<Rightarrow> data_packet" where
  "build_header cmd len =
     (replicate 64 0)
       [0 := 0xAA,
        1 := cmd_code cmd,
        2 := word_of_nat (len AND 0xFF),
        3 := word_of_nat (drop_bit 8 len AND 0xFF)]"

definition send_command ::
  "extern \<Rightarrow> dev_ptr \<Rightarrow> cmd_type \<Rightarrow> u8 list option \<Rightarrow> nat \<Rightarrow> advanced_device
     \<Rightarrow> int \<times> advanced_device \<times> kcall list" where
  "send_command env p cmd data len dev =
     (if p = DEV_NULL \<or> state dev = STATE_ERROR then (- EINVAL, dev, [])
      else
        let pkt = build_header cmd len;
            pkt' = (case data of
                      None \<Rightarrow> pkt
                    | Some d \<Rightarrow>
                        if 0 < len \<and> len \<le> 60 then memcpy_payload pkt d len else pkt);
            u = (bulk_urb dev)
                  \<lparr>transfer_buffer := TX_BUFFER_BYTES,
                   transfer_buffer_length := word_of_nat (4 + len),
                   context := DEV_PTR\<rparr>;
            dev' = dev\<lparr>tx_buffer := pkt', state := STATE_TRANSFERRING, bulk_urb := u\<rparr>
        in (usb_submit_urb_ret env, dev', [Usb_submit_urb u pkt']))"

text \<open>
  \<open>process_response\<close>. The packet pointer is \<open>None\<close> for NULL. The \<open>uint32_t\<close> read
  through the payload is taken little-endian (the byte order of the usual targets).
\<close>

definition payload_u32 :: "data_packet \<Rightarrow> u32" where
  "payload_u32 pkt = word_rcat (rev (take 4 (frame_payload pkt)))"

definition process_response ::
  "data_packet option \<Rightarrow> advanced_device \<Rightarrow> result_t \<times> advanced_device" where
  "process_response packet dev =
     (case packet of
        None \<Rightarrow> (RESULT_INVALID, dev)
      | Some pkt \<Rightarrow>
          if pkt ! 0 \<noteq> 0xAA then (RESULT_INVALID, dev)
          else
            let cmd = pkt ! 1 in
            if cmd = cmd_code CMD_READ \<or> cmd = cmd_code CMD_WRITE then (RESULT_OK, dev)
            else if cmd = cmd_code CMD_STATUS
              then (RESULT_OK, dev\<lparr>ctrl := payload_u32 pkt\<rparr>)
            else if cmd = cmd_code CMD_RESET
              then (RESULT_OK, dev\<lparr>state := STATE_IDLE\<rparr>)
            else (RESULT_INVALID, dev))"

subsection \<open>Completion callbacks\<close>

definition bulk_complete_callback ::
  "extern \<Rightarrow> urb \<Rightarrow> advanced_device \<Rightarrow> advanced_device \<times> kcall list" where
  "bulk_complete_callback env u dev =
     (if context u = DEV_NULL then (dev, [])
      else if status u = 0 then
        (let dev' = dev\<lparr>state := STATE_IDLE, last_result := RESULT_OK\<rparr> in
         case on_data dev' of
           None \<Rightarrow> (dev', [])
         | Some f \<Rightarrow>
             (call_on_data env f (transfer_buffer u) (actual_length u) dev',
              [Call_on_data f (transfer_buffer u) (actual_length u)]))
      else if status u = - ENOENT \<or> status u = - ECONNRESET \<or> status u = - ESHUTDOWN
        then (dev\<lparr>state := STATE_ERROR\<rparr>, [])
      else (dev\<lparr>state := STATE_ERROR, last_result := RESULT_INVALID\<rparr>, []))"

text \<open>\<open>reg\<close> is the \<open>union control_reg\<close> that \<open>urb->transfer_buffer\<close> points to.\<close>

definition ctrl_complete_callback :: "urb \<Rightarrow> u32 \<Rightarrow> advanced_device \<Rightarrow> advanced_device" where
  "ctrl_complete_callback u reg dev =
     (if context u = DEV_NULL then dev
      else if status u = 0 then dev\<lparr>ctrl := reg\<rparr>
      else dev)"

subsection \<open>Work queue handlers\<close>

definition device_work_handler ::
  "extern \<Rightarrow> advanced_device \<Rightarrow> advanced_device \<times> kcall list" where
  "device_work_handler env dev =
     (if state dev = STATE_CONNECTED then
        (let (ret, dev', tr) = send_command env DEV_PTR CMD_STATUS None 0 dev
         in (dev', [Spin_lock] @ tr @ [Spin_unlock]))
      else (dev, [Spin_lock, Spin_unlock]))"

definition device_delayed_work_handler ::
  "extern \<Rightarrow> advanced_device \<Rightarrow> advanced_device \<times> kcall list" where
  "device_delayed_work_handler env dev =
     (if state dev = STATE_ERROR \<and> auto_reconnect (config dev) then
        (let dev1 = dev\<lparr>state := STATE_CONNECTING\<rparr>;
             (ret, dev', tr) = send_command env DEV_PTR CMD_RESET None 0 dev1
         in (dev', tr))
      else (dev, []))"

text \<open>The delayed work run once per period, each run with its own surroundings.\<close>

fun run_ticks :: "extern list \<Rightarrow> advanced_device \<Rightarrow> advanced_device" where
  "run_ticks [] dev = dev"
| "run_ticks (env # envs) dev = run_ticks envs (fst (device_delayed_work_handler env dev))"

subsection \<open>File operations\<close>

text \<open>
  \<open>container_of\<close> and \<open>file->private_data\<close> only carry the address of the device
  record; the record is passed directly.
\<close>

definition device_open ::
  "extern \<Rightarrow> advanced_device \<Rightarrow> int \<times> advanced_device \<times> kcall list" where
  "device_open env dev =
     (if state dev \<noteq> STATE_IDLE then (- EBUSY, dev, [Spin_lock, Spin_unlock])
      else
        let dev' = dev\<lparr>state := STATE_CONNECTING\<rparr> in
        case on_connect dev' of
          None \<Rightarrow> (0, dev', [Spin_lock, Spin_unlock])
        | Some f \<Rightarrow>
            (0, call_on_connect env f dev', [Spin_lock, Spin_unlock, Call_on_connect f]))"

definition device_release ::
  "extern \<Rightarrow> advanced_device \<Rightarrow> int \<times> advanced_device \<times> kcall list" where
  "device_release env dev =
     (case on_disconnect dev of
        None \<Rightarrow> (0, dev\<lparr>state := STATE_IDLE\<rparr>, [Spin_lock, Spin_unlock])
      | Some f \<Rightarrow>
          (0, (call_on_disconnect env f dev)\<lparr>state := STATE_IDLE\<rparr>,
           [Call_on_disconnect f, Spin_lock, Spin_unlock]))"

text \<open>
  The user side of \<open>copy_to_user\<close> and \<open>copy_from_user\<close>: \<open>ucap\<close> is the number of
  bytes writable at the user pointer, \<open>ubuf\<close> the bytes readable there. Both calls
  return the number of bytes they could not copy, and \<open>copy_from_user\<close> zero-fills
  that tail of its destination.
\<close>

definition copy_from_user :: "u8 list \<Rightarrow> nat \<Rightarrow> nat \<times> u8 list" where
  "copy_from_user ubuf n = (n - length ubuf, take n ubuf @ replicate (n - length ubuf) 0)"

definition device_read :: "nat \<Rightarrow> nat \<Rightarrow> advanced_device \<Rightarrow> int \<times> u8 list" where
  "device_read ucap count dev =
     (if state dev \<noteq> STATE_CONNECTED then (- ENODEV, [])
      else
        let to_copy = min count 64 in
        if to_copy - ucap \<noteq> 0 then (- EFAULT, take ucap (rx_buffer dev))
        else (int to_copy, take to_copy (rx_buffer dev)))"

definition device_write ::
  "extern \<Rightarrow> u8 list \<Rightarrow> nat \<Rightarrow> advanced_device \<Rightarrow> int \<times> advanced_device \<times> kcall list" where
  "device_write env ubuf count dev =
     (if state dev \<noteq> STATE_CONNECTED then (- ENODEV, dev, [])
      else
        let to_copy = min count 60;
            (left, bytes) = copy_from_user ubuf to_copy;
            dev1 = dev\<lparr>tx_buffer := memcpy_payload (tx_buffer dev) bytes to_copy\<rparr>
        in if left \<noteq> 0 then (- EFAULT, dev1, [])
           else
             let (ret, dev2, tr) = send_command env DEV_PTR CMD_WRITE None to_copy dev1
             in if ret < 0 then (ret, dev2, tr) else (int to_copy, dev2, tr))"

subsection \<open>Probe and disconnect\<close>

text \<open>What the allocations and the endpoint lookup of \<open>advanced_probe\<close> answer.\<close>

record probe_env =
  kzalloc_ok :: bool
  ctrl_urb_ok :: bool
  bulk_urb_ok :: bool
  find_endpoints_ret :: int
  bulk_in_endpoint :: u8
  bulk_out_endpoint :: u8
  bulk_in_maxp :: nat

text \<open>The record as \<open>kzalloc\<close> returns it: every field zero.\<close>

definition kzalloc_device :: advanced_device where
  "kzalloc_device =
     \<lparr>state = STATE_IDLE, last_result = RESULT_OK,
      tx_buffer = replicate 64 0, rx_buffer = replicate 64 0, ctrl = 0,
      config = \<lparr>name = [], timeout_ms = 0, retry_count = 0, auto_reconnect = False\<rparr>,
      bulk_in_addr = 0, bulk_out_addr = 0, bulk_in_size = 0,
      bulk_urb = \<lparr>status = 0, transfer_buffer = BUF_NULL, transfer_buffer_length = 0,
                  actual_length = 0, context = DEV_NULL\<rparr>,
      on_connect = None, on_disconnect = None, on_data = None\<rparr>"

definition advanced_probe :: "probe_env \<Rightarrow> int \<times> advanced_device option \<times> kcall list" where
  "advanced_probe pe =
     (if \<not> kzalloc_ok pe then (- ENOMEM, None, [])
      else
        let dev = kzalloc_device
                    \<lparr>state := STATE_IDLE,
                     config := \<lparr>name = ''advanced_device'', timeout_ms = 1000,
                                retry_count = 3, auto_reconnect = True\<rparr>\<rparr>;
            cleanup = [Usb_free_urb CTRL_URB, Usb_free_urb BULK_URB, Usb_put_dev, Kfree]
        in if \<not> ctrl_urb_ok pe \<or> \<not> bulk_urb_ok pe then (- ENOMEM, None, cleanup)
           else if find_endpoints_ret pe \<noteq> 0 then (find_endpoints_ret pe, None, cleanup)
           else (0,
                 Some (dev\<lparr>bulk_in_addr := bulk_in_endpoint pe,
                            bulk_out_addr := bulk_out_endpoint pe,
                            bulk_in_size := bulk_in_maxp pe\<rparr>),
                 [Usb_set_intfdata DEV_PTR]))"

text \<open>\<open>advanced_disconnect\<close> reads no field but the handles it cancels and frees.\<close>

definition advanced_disconnect :: "dev_ptr \<Rightarrow> kcall list" where
  "advanced_disconnect p =
     (if p = DEV_NULL then []
      else [Usb_set_intfdata DEV_NULL,
            Cancel_work_sync, Cancel_delayed_work_sync,
            Usb_kill_urb CTRL_URB, Usb_kill_urb BULK_URB,
            Usb_free_urb CTRL_URB, Usb_free_urb BULK_URB,
            Usb_put_dev, Kfree])"

section \<open>The async demo driver (examples/async_demo/async_demo_example.c)\<close>

record async_demo_dev =
  running :: int
  kthread :: "nat option"
  irq :: int

text \<open>
  \<open>async_demo_remove\<close>. The \<open>free_irq\<close> call is commented out in the source, and the
  record is device-managed memory (\<open>devm_kzalloc\<close>), so the function frees nothing.
\<close>

definition async_demo_remove :: "async_demo_dev \<Rightarrow> int \<times> async_demo_dev \<times> kcall list" where
  "async_demo_remove dev =
     (0, dev\<lparr>running := 0\<rparr>,
      [Atomic_set_running 0]
      @ (if kthread dev \<noteq> None then [Kthread_stop, Wait_for_completion] else [])
      @ [Hrtimer_cancel, Del_timer_sync, Tasklet_kill,
         Cancel_work_sync, Cancel_delayed_work_sync])"

section \<open>Reachable device records\<close>

text \<open>
  The records the driver can hold: the one a successful \<open>advanced_probe\<close> creates, and
  every record a driver function makes of a reachable one, whatever its arguments
  and whatever the surroundings answer.
\<close>

inductive reachable :: "advanced_device \<Rightarrow> bool" where
  r_probe: "advanced_probe pe = (r, Some dev, tr) \<Longrightarrow> reachable dev"
| r_open: "reachable dev \<Longrightarrow> device_open env dev = (r, dev', tr) \<Longrightarrow> reachable dev'"
| r_release: "reachable dev \<Longrightarrow> device_release env dev = (r, dev', tr) \<Longrightarrow> reachable dev'"
| r_write:
    "reachable dev \<Longrightarrow> device_write env ubuf count dev = (r, dev', tr) \<Longrightarrow> reachable dev'"
| r_send:
    "reachable dev \<Longrightarrow> send_command env p cmd data len dev = (r, dev', tr)
       \<Longrightarrow> reachable dev'"
| r_response: "reachable dev \<Longrightarrow> process_response packet dev = (res, dev') \<Longrightarrow> reachable dev'"
| r_bulk: "reachable dev \<Longrightarrow> bulk_complete_callback env u dev = (dev', tr) \<Longrightarrow> reachable dev'"
| r_ctrl: "reachable dev \<Longrightarrow> reachable (ctrl_complete_callback u reg dev)"
| r_work: "reachable dev \<Longrightarrow> device_work_handler env dev = (dev', tr) \<Longrightarrow> reachable dev'"
| r_delayed:
    "reachable dev \<Longrightarrow> device_delayed_work_handler env dev = (dev', tr) \<Longrightarrow> reachable dev'"

text \<open>
  The invariant of the reachable records: the state is not \<open>STATE_CONNECTED\<close> and no
  callback is registered (no driver function stores into the three callback fields,
  which \<open>kzalloc\<close> leaves NULL).
\<close>

definition no_hooks :: "advanced_device \<Rightarrow> bool" where
  "no_hooks dev \<longleftrightarrow>
     state dev \<noteq> STATE_CONNECTED
     \<and> on_connect dev = None \<and> on_disconnect dev = None \<and> on_data dev = None"

section \<open>The teardown order of the specification\<close>

text \<open>
  The step of the specification's teardown sequence (1 to 8) that a call belongs to;
  calls the sequence does not mention have none. A trace follows the sequence when
  the step numbers of its calls never decrease.
\<close>

fun spec_teardown_step :: "kcall \<Rightarrow> nat option" where
  "spec_teardown_step Free_irq = Some 1"
| "spec_teardown_step Hrtimer_cancel = Some 2"
| "spec_teardown_step Del_timer_sync = Some 3"
| "spec_teardown_step Tasklet_kill = Some 4"
| "spec_teardown_step Cancel_work_sync = Some 5"
| "spec_teardown_step Cancel_delayed_work_sync = Some 5"
| "spec_teardown_step Kthread_stop = Some 6"
| "spec_teardown_step Wait_for_completion = Some 6"
| "spec_teardown_step (Usb_kill_urb i) = Some 7"
| "spec_teardown_step Kfree = Some 8"
| "spec_teardown_step c = None"

definition spec_teardown_order :: "kcall list \<Rightarrow> bool" where
  "spec_teardown_order tr = sorted (List.map_filter spec_teardown_step tr)"

text \<open>The two calls that stop the background task and wait for its completion signal.\<close>

definition is_task_stop :: "kcall \<Rightarrow> bool" where
  "is_task_stop c \<longleftrightarrow> c = Kthread_stop \<or> c = Wait_for_completion"

section \<open>Example inputs\<close>

text \<open>
  Surroundings where \<open>usb_submit_urb\<close> succeeds and callbacks leave the record alone,
  and a few device records, for evaluating the functions.
\<close>

definition quiet_env :: extern where
  "quiet_env =
     \<lparr>usb_submit_urb_ret = 0,
      call_on_connect = (\<lambda>f dev. dev),
      call_on_disconnect = (\<lambda>f dev. dev),
      call_on_data = (\<lambda>f b n dev. dev)\<rparr>"

definition idle_device :: advanced_device where
  "idle_device = kzalloc_device"

definition error_device :: advanced_device where
  "error_device = kzalloc_device\<lparr>state := STATE_ERROR\<rparr>"

definition transferring_device :: advanced_device where
  "transferring_device =
     kzalloc_device\<lparr>state := STATE_TRANSFERRING, last_result := RESULT_BUSY\<rparr>"

definition connecting_device :: advanced_device where
  "connecting_device = kzalloc_device\<lparr>state := STATE_CONNECTING\<rparr>"

definition connected_device :: advanced_device where
  "connected_device = kzalloc_device\<lparr>state := STATE_CONNECTED\<rparr>"

definition hooked_device :: advanced_device where
  "hooked_device = kzalloc_device\<lparr>on_connect := Some 1\<rparr>"

definition reconnect_device :: advanced_device where
  "reconnect_device =
     kzalloc_device
       \<lparr>state := STATE_ERROR,
        config := \<lparr>name = ''advanced_device'', timeout_ms = 1000, retry_count = 3,
                   auto_reconnect = True\<rparr>\<rparr>"

definition shutdown_urb :: urb where
  "shutdown_urb =
     \<lparr>status = - ESHUTDOWN, transfer_buffer = TX_BUFFER_BYTES, transfer_buffer_length = 4,
      actual_length = 0, context = DEV_PTR\<rparr>"

definition good_probe :: probe_env where
  "good_probe =
     \<lparr>kzalloc_ok = True, ctrl_urb_ok = True, bulk_urb_ok = True, find_endpoints_ret = 0,
      bulk_in_endpoint = 0x81, bulk_out_endpoint = 0x02, bulk_in_maxp = 64\<rparr>"

definition probed_device :: advanced_device where
  "probed_device =
     kzalloc_device
       \<lparr>config := \<lparr>name = ''advanced_device'', timeout_ms = 1000, retry_count = 3,
                   auto_reconnect = True\<rparr>,
        bulk_in_addr := 0x81, bulk_out_addr := 0x02, bulk_in_size := 64\<rparr>"

definition demo_device :: async_demo_dev where
  "demo_device = \<lparr>running = 1, kthread = Some 1, irq = 0\<rparr>"

section \<open>Properties\<close>

lemmas errno_defs =
  ENOENT_def ENOMEM_def EFAULT_def EBUSY_def ENODEV_def EINVAL_def ECONNRESET_def
  ESHUTDOWN_def


subsection \<open>The packet header\<close>

lemma replicate_64: "replicate 64 x = x # x # x # x # replicate 60 x"
proof -
  have "replicate 64 x = replicate 4 x @ replicate 60 x"
    by (simp flip: replicate_add)
  then show ?thesis by (simp add: numeral_eq_Suc)
qed

lemma build_header_eq:
  "build_header cmd len =
     [0xAA, cmd_code cmd, word_of_nat (len AND 0xFF), word_of_nat (drop_bit 8 len AND 0xFF)]
     @ replicate 60 0"
  by (simp add: build_header_def replicate_64)

lemma build_header_payload: "frame_payload (build_header cmd len) = replicate 60 0"
  by (simp add: build_header_eq frame_payload_def)

lemma and_255: "(n::nat) AND 0xFF = n mod 256"
proof -
  have "(0xFF::nat) = mask 8" by (simp add: mask_eq_exp_minus_1)
  then have "n AND 0xFF = take_bit 8 n" by (simp only: take_bit_eq_mask)
  then show ?thesis by (simp add: take_bit_eq_mod)
qed

lemma header_length_le:
  "unat (build_header cmd len ! 2) + 256 * unat (build_header cmd len ! 3) = len mod 65536"
proof -
  have "build_header cmd len ! 2 = word_of_nat (len AND 0xFF)"
    and "build_header cmd len ! 3 = word_of_nat (drop_bit 8 len AND 0xFF)"
    by (simp_all add: build_header_def)
  then have "unat (build_header cmd len ! 2) + 256 * unat (build_header cmd len ! 3)
      = len mod 256 + 256 * ((len div 256) mod 256)"
    by (simp add: and_255 unat_of_nat drop_bit_eq_div)
  also have "\<dots> = len mod 65536"
    using mod_mult2_eq [of len 256 256] by simp
  finally show ?thesis .
qed

lemma memcpy_header:
  assumes "n \<le> 60" "n \<le> length src"
  shows "memcpy_payload (build_header cmd len) src n =
           take 4 (build_header cmd len) @ take n src @ replicate (60 - n) 0"
proof -
  define h where "h = take 4 (build_header cmd len)"
  have hl: "length h = 4" by (simp add: h_def build_header_eq)
  have bh: "build_header cmd len = h @ replicate 60 0"
    by (simp add: h_def build_header_eq)
  have "drop (4 + n) (h @ replicate 60 0) = replicate (60 - n) 0"
    using hl by simp
  then show ?thesis
    unfolding memcpy_payload_def h_def [symmetric] by (simp add: bh hl)
qed

lemma send_command_tx:
  assumes "state dev \<noteq> STATE_ERROR" "length payload \<le> 60"
  shows "tx_buffer (fst (snd (send_command env DEV_PTR cmd (Some payload) (length payload) dev)))
      = take 4 (build_header cmd (length payload)) @ payload
        @ replicate (60 - length payload) 0"
proof (cases "length payload = 0")
  case True
  then show ?thesis using assms
    by (simp add: send_command_def Let_def build_header_eq)
next
  case False
  then show ?thesis using assms
    by (simp add: send_command_def Let_def memcpy_header)
qed

subsection \<open>Oversized payload lengths\<close>

lemma send_command_submit_length:
  assumes "Usb_submit_urb u pkt \<in> set (snd (snd (send_command env p cmd data len dev)))"
  shows "transfer_buffer_length u = word_of_nat (4 + len)"
  using assms by (auto simp add: send_command_def Let_def split: if_splits)

lemma unat_length_le: "n \<le> 64 \<Longrightarrow> unat (word_of_nat n :: u32) \<le> 64"
  by (simp add: unat_of_nat)

text \<open>
  \<open>send_command\<close> does not refuse a length above 60: called on an idle device with
  61 bytes it returns 0, not \<open>-EINVAL\<close>, overwrites \<open>tx_buffer\<close> with the header,
  moves to \<open>STATE_TRANSFERRING\<close> and submits a transfer.
\<close>

theorem send_command_oversize_accepted:
  "fst (send_command quiet_env DEV_PTR CMD_WRITE (Some (replicate 61 0x55)) 61 idle_device) = 0
   \<and> - EINVAL \<noteq> 0
   \<and> tx_buffer (fst (snd
         (send_command quiet_env DEV_PTR CMD_WRITE (Some (replicate 61 0x55)) 61 idle_device)))
       = [0xAA, 0x02, 61, 0] @ replicate 60 0
   \<and> tx_buffer idle_device = replicate 64 0
   \<and> state (fst (snd
         (send_command quiet_env DEV_PTR CMD_WRITE (Some (replicate 61 0x55)) 61 idle_device)))
       = STATE_TRANSFERRING
   \<and> state idle_device = STATE_IDLE
   \<and> length (snd (snd
         (send_command quiet_env DEV_PTR CMD_WRITE (Some (replicate 61 0x55)) 61 idle_device)))
       = 1"
  by (simp add: send_command_def quiet_env_def idle_device_def kzalloc_device_def
      build_header_eq Let_def EINVAL_def)

text \<open>
  Claim C1, amended: \<open>send_command\<close> has no check of the payload length. It returns
  \<open>-EINVAL\<close>, with the record unchanged and nothing submitted, only when the device
  pointer is NULL or the state is \<open>STATE_ERROR\<close>. With a length above 60 on a device
  in another state it returns what \<open>usb_submit_urb\<close> returns; the payload copy is
  skipped, so \<open>tx_buffer\<close> holds the zero fill and the header only; the state becomes
  \<open>STATE_TRANSFERRING\<close> and one transfer is submitted. The bound of 60 payload bytes
  is kept by the callers: \<open>device_write\<close> clamps the length to \<open>min(count, 60)\<close> and
  the two work handlers pass 0, so no transfer they submit is longer than the 64
  bytes of the buffer.
\<close>

theorem send_command_length_unchecked:
  "(p = DEV_NULL \<or> state dev = STATE_ERROR \<longrightarrow>
      send_command env p cmd data len dev = (- EINVAL, dev, []))
   \<and> (p = DEV_PTR \<and> state dev \<noteq> STATE_ERROR \<and> 60 < len \<longrightarrow>
        fst (send_command env p cmd data len dev) = usb_submit_urb_ret env
        \<and> tx_buffer (fst (snd (send_command env p cmd data len dev))) = build_header cmd len
        \<and> frame_payload (tx_buffer (fst (snd (send_command env p cmd data len dev))))
            = replicate 60 0
        \<and> state (fst (snd (send_command env p cmd data len dev))) = STATE_TRANSFERRING
        \<and> (\<exists>u. snd (snd (send_command env p cmd data len dev))
                 = [Usb_submit_urb u (build_header cmd len)]))
   \<and> (\<forall>u pkt. Usb_submit_urb u pkt \<in> set (snd (snd (device_write env ubuf count dev)))
        \<longrightarrow> unat (transfer_buffer_length u) \<le> 64)
   \<and> (\<forall>u pkt. Usb_submit_urb u pkt \<in> set (snd (device_work_handler env dev))
        \<longrightarrow> unat (transfer_buffer_length u) \<le> 64)
   \<and> (\<forall>u pkt. Usb_submit_urb u pkt \<in> set (snd (device_delayed_work_handler env dev))
        \<longrightarrow> unat (transfer_buffer_length u) \<le> 64)"
proof -
  have a: "p = DEV_NULL \<or> state dev = STATE_ERROR \<longrightarrow>
      send_command env p cmd data len dev = (- EINVAL, dev, [])"
    by (simp add: send_command_def)
  have b: "p = DEV_PTR \<and> state dev \<noteq> STATE_ERROR \<and> 60 < len \<longrightarrow>
        fst (send_command env p cmd data len dev) = usb_submit_urb_ret env
        \<and> tx_buffer (fst (snd (send_command env p cmd data len dev))) = build_header cmd len
        \<and> frame_payload (tx_buffer (fst (snd (send_command env p cmd data len dev))))
            = replicate 60 0
        \<and> state (fst (snd (send_command env p cmd data len dev))) = STATE_TRANSFERRING
        \<and> (\<exists>u. snd (snd (send_command env p cmd data len dev))
                 = [Usb_submit_urb u (build_header cmd len)])"
    by (simp add: send_command_def Let_def build_header_payload split: option.splits)
  have w: "\<forall>u pkt. Usb_submit_urb u pkt \<in> set (snd (snd (device_write env ubuf count dev)))
        \<longrightarrow> unat (transfer_buffer_length u) \<le> 64"
  proof (intro allI impI)
    fix u pkt
    assume "Usb_submit_urb u pkt \<in> set (snd (snd (device_write env ubuf count dev)))"
    then have "Usb_submit_urb u pkt \<in> set (snd (snd
        (send_command env DEV_PTR CMD_WRITE None (min count 60)
           (dev\<lparr>tx_buffer := memcpy_payload (tx_buffer dev)
                   (snd (copy_from_user ubuf (min count 60))) (min count 60)\<rparr>))))"
      by (auto simp add: device_write_def Let_def split_def split: if_splits)
    then have eq: "transfer_buffer_length u = word_of_nat (4 + min count 60)"
      by (rule send_command_submit_length)
    have "unat (word_of_nat (4 + min count 60) :: u32) \<le> 64"
      by (rule unat_length_le) simp
    then show "unat (transfer_buffer_length u) \<le> 64"
      by (simp only: eq)
  qed
  have h: "\<forall>u pkt. Usb_submit_urb u pkt \<in> set (snd (device_work_handler env dev))
        \<longrightarrow> unat (transfer_buffer_length u) \<le> 64"
    by (auto simp add: device_work_handler_def Let_def split_def
        split: if_splits dest!: send_command_submit_length)
  have d: "\<forall>u pkt. Usb_submit_urb u pkt \<in> set (snd (device_delayed_work_handler env dev))
        \<longrightarrow> unat (transfer_buffer_length u) \<le> 64"
    by (auto simp add: device_delayed_work_handler_def Let_def split_def
        split: if_splits dest!: send_command_submit_length)
  from a b w h d show ?thesis by blast
qed

theorem send_command_length_unchecked_witness:
  "state idle_device \<noteq> STATE_ERROR \<and> (60::nat) < 61
   \<and> fst (send_command quiet_env DEV_PTR CMD_WRITE (Some (replicate 61 0x55)) 61 idle_device)
       = usb_submit_urb_ret quiet_env
   \<and> frame_payload (tx_buffer (fst (snd
         (send_command quiet_env DEV_PTR CMD_WRITE (Some (replicate 61 0x55)) 61
            idle_device))))
       = replicate 60 0
   \<and> state (fst (snd
         (send_command quiet_env DEV_PTR CMD_WRITE (Some (replicate 61 0x55)) 61 idle_device)))
       = STATE_TRANSFERRING"
proof -
  have h1: "state idle_device \<noteq> STATE_ERROR"
    by (simp add: idle_device_def kzalloc_device_def)
  have h2: "(60::nat) < 61" by simp
  show ?thesis
    using h1 h2
      send_command_length_unchecked
        [of DEV_PTR idle_device quiet_env CMD_WRITE "Some (replicate 61 0x55)" 61]
    by blast
qed

subsection \<open>Sending from the error state\<close>

text \<open>
  Claim C7: on a device whose state is \<open>STATE_ERROR\<close>, \<open>send_command\<close> returns
  \<open>-EINVAL\<close> whatever its other arguments are, logs no call (so no transfer is
  submitted), and returns the device record as it was: \<open>tx_buffer\<close>, \<open>state\<close> and
  \<open>last_result\<close> included.
\<close>

theorem send_command_error_state:
  "state dev = STATE_ERROR \<Longrightarrow> send_command env p cmd data len dev = (- EINVAL, dev, [])"
  by (simp add: send_command_def)

theorem send_command_error_state_witness:
  "state error_device = STATE_ERROR
   \<and> send_command quiet_env DEV_PTR CMD_RESET (Some [1, 2, 3]) 3 error_device
       = (- EINVAL, error_device, [])"
proof -
  have h: "state error_device = STATE_ERROR"
    by (simp add: error_device_def)
  show ?thesis
    using h send_command_error_state [OF h, of quiet_env DEV_PTR CMD_RESET "Some [1, 2, 3]" 3]
    by simp
qed

subsection \<open>Encoding followed by decoding\<close>

text \<open>
  A control command does not survive the round trip: \<open>process_response\<close> answers
  \<open>RESULT_INVALID\<close> to the packet that \<open>send_command\<close> builds for \<open>CMD_CONTROL\<close>.
\<close>

theorem control_roundtrip_rejected:
  "fst (process_response
          (Some (tx_buffer (fst (snd
             (send_command quiet_env DEV_PTR CMD_CONTROL (Some [1, 2, 3]) 3 idle_device)))))
          idle_device)
   = RESULT_INVALID"
  by (simp add: send_command_def process_response_def build_header_eq memcpy_payload_def
      idle_device_def kzalloc_device_def Let_def)

text \<open>
  Claim C2, amended: for a device that is not in \<open>STATE_ERROR\<close> and a payload of at
  most 60 bytes, the \<open>tx_buffer\<close> that \<open>send_command\<close> fills is 64 bytes long and
  holds the sync byte, the command code, the payload length in little-endian order
  and then the payload bytes unchanged; \<open>process_response\<close> on that buffer returns
  \<open>RESULT_OK\<close> for the commands Read, Write, Status and Reset, and \<open>RESULT_INVALID\<close>
  for Control. \<open>process_response\<close> returns the result code only.
\<close>

theorem encode_decode_roundtrip:
  assumes "state dev \<noteq> STATE_ERROR" and "length payload \<le> 60"
  shows "let tx = tx_buffer (fst (snd
                    (send_command env DEV_PTR cmd (Some payload) (length payload) dev)))
         in fst (process_response (Some tx) d)
              = (if cmd = CMD_CONTROL then RESULT_INVALID else RESULT_OK)
          \<and> length tx = 64
          \<and> tx ! 0 = 0xAA
          \<and> tx ! 1 = cmd_code cmd
          \<and> unat (tx ! 2) + 256 * unat (tx ! 3) = length payload
          \<and> take (length payload) (frame_payload tx) = payload"
proof -
  define tx where
    "tx = tx_buffer (fst (snd
            (send_command env DEV_PTR cmd (Some payload) (length payload) dev)))"
  have tx: "tx = take 4 (build_header cmd (length payload)) @ payload
                 @ replicate (60 - length payload) 0"
    unfolding tx_def using assms by (rule send_command_tx)
  have h: "take 4 (build_header cmd (length payload))
           = [0xAA, cmd_code cmd, build_header cmd (length payload) ! 2,
              build_header cmd (length payload) ! 3]"
    by (simp add: build_header_eq)
  have l: "length tx = 64" using assms(2) by (simp add: tx h)
  have b0: "tx ! 0 = 0xAA" and b1: "tx ! 1 = cmd_code cmd"
    and b2: "tx ! 2 = build_header cmd (length payload) ! 2"
    and b3: "tx ! 3 = build_header cmd (length payload) ! 3"
    by (simp_all add: tx h)
  have len: "unat (tx ! 2) + 256 * unat (tx ! 3) = length payload"
    using assms(2) by (simp only: b2 b3 header_length_le) simp
  have pl: "take (length payload) (frame_payload tx) = payload"
    by (simp add: tx h frame_payload_def)
  have pr: "fst (process_response (Some tx) d)
            = (if cmd = CMD_CONTROL then RESULT_INVALID else RESULT_OK)"
  proof -
    have b1': "tx ! Suc 0 = cmd_code cmd" using b1 by simp
    show ?thesis
      by (cases cmd) (simp_all add: process_response_def b0 b1' Let_def)
  qed
  show ?thesis
    using l b0 b1 len pl pr unfolding tx_def [symmetric] by (simp add: Let_def)
qed

theorem encode_decode_roundtrip_witness:
  "state idle_device \<noteq> STATE_ERROR \<and> length [7, 8, 9 :: u8] \<le> 60
   \<and> fst (process_response
            (Some (tx_buffer (fst (snd
               (send_command quiet_env DEV_PTR CMD_STATUS (Some [7, 8, 9]) 3 idle_device)))))
            idle_device) = RESULT_OK
   \<and> take 3 (frame_payload (tx_buffer (fst (snd
               (send_command quiet_env DEV_PTR CMD_STATUS (Some [7, 8, 9]) 3 idle_device)))))
       = [7, 8, 9]"
proof -
  have h1: "state idle_device \<noteq> STATE_ERROR"
    by (simp add: idle_device_def kzalloc_device_def)
  have h2: "length [7, 8, 9 :: u8] \<le> 60" by simp
  show ?thesis
    using h1 h2
      encode_decode_roundtrip [OF h1 h2, of quiet_env CMD_STATUS idle_device]
    by (simp add: Let_def numeral_3_eq_3)
qed


subsection \<open>Decoding\<close>

text \<open>
  A packet whose first byte is the sync value is still rejected when its command byte
  is not one that \<open>process_response\<close> handles, here \<open>0x03\<close>.
\<close>

theorem sync_ok_unknown_command_rejected:
  "(0xAA # 0x03 # replicate 62 0) ! 0 = (0xAA :: u8)
   \<and> process_response (Some (0xAA # 0x03 # replicate 62 0)) idle_device
       = (RESULT_INVALID, idle_device)"
  by (simp add: process_response_def)

text \<open>
  Claim C6, amended: \<open>process_response\<close> returns \<open>RESULT_INVALID\<close> exactly when the
  first header byte differs from \<open>0xAA\<close> (whatever the rest holds) or the command
  byte is none of \<open>0x01\<close>, \<open>0x02\<close>, \<open>0x04\<close>, \<open>0xFF\<close>; every such failure leaves
  the device record as it was. Otherwise it returns \<open>RESULT_OK\<close>, and nothing but
  that result code: the record is unchanged for Read and Write, \<open>ctrl\<close> is loaded
  from the first four payload bytes for Status, and the state becomes \<open>STATE_IDLE\<close>
  for Reset.
\<close>

theorem process_response_cases:
  "(fst (process_response (Some pkt) dev) = RESULT_INVALID
      \<longleftrightarrow> pkt ! 0 \<noteq> 0xAA \<or> pkt ! 1 \<notin> {0x01, 0x02, 0x04, 0xFF})
   \<and> (fst (process_response (Some pkt) dev) \<noteq> RESULT_INVALID
      \<longrightarrow> fst (process_response (Some pkt) dev) = RESULT_OK)
   \<and> (fst (process_response (Some pkt) dev) = RESULT_INVALID
      \<longrightarrow> snd (process_response (Some pkt) dev) = dev)
   \<and> (pkt ! 0 = 0xAA \<and> pkt ! 1 \<in> {0x01, 0x02}
      \<longrightarrow> process_response (Some pkt) dev = (RESULT_OK, dev))
   \<and> (pkt ! 0 = 0xAA \<and> pkt ! 1 = 0x04
      \<longrightarrow> process_response (Some pkt) dev = (RESULT_OK, dev\<lparr>ctrl := payload_u32 pkt\<rparr>))
   \<and> (pkt ! 0 = 0xAA \<and> pkt ! 1 = 0xFF
      \<longrightarrow> process_response (Some pkt) dev = (RESULT_OK, dev\<lparr>state := STATE_IDLE\<rparr>))"
  by (simp add: process_response_def Let_def)

theorem process_response_cases_witness:
  "fst (process_response (Some (0x55 # 0x01 # replicate 62 0)) idle_device) = RESULT_INVALID
   \<and> snd (process_response (Some (0x55 # 0x01 # replicate 62 0)) idle_device) = idle_device
   \<and> process_response (Some (0xAA # 0xFF # replicate 62 0)) error_device
       = (RESULT_OK, error_device\<lparr>state := STATE_IDLE\<rparr>)"
  using process_response_cases [of "0x55 # 0x01 # replicate 62 0" idle_device]
    process_response_cases [of "0xAA # 0xFF # replicate 62 0" error_device]
  by simp

subsection \<open>Transfer completion\<close>

text \<open>
  Claim C3: the completion callback on a device in \<open>STATE_TRANSFERRING\<close>. With status
  0 the state becomes \<open>STATE_IDLE\<close> and \<open>last_result\<close> \<open>RESULT_OK\<close>; the \<open>on_data\<close>
  callback is then called once, on that record, when one is registered, and not
  called when none is. With status \<open>-ENOENT\<close>, \<open>-ECONNRESET\<close> or \<open>-ESHUTDOWN\<close> the
  state becomes \<open>STATE_ERROR\<close> and \<open>last_result\<close> keeps its value. With any other
  status the state becomes \<open>STATE_ERROR\<close> and \<open>last_result\<close> \<open>RESULT_INVALID\<close>.
\<close>

theorem bulk_complete_callback_cases:
  assumes "context u = DEV_PTR" and "state dev = STATE_TRANSFERRING"
  shows
    "(status u = 0 \<longrightarrow>
        (case on_data dev of
           None \<Rightarrow>
             bulk_complete_callback env u dev
               = (dev\<lparr>state := STATE_IDLE, last_result := RESULT_OK\<rparr>, [])
         | Some f \<Rightarrow>
             bulk_complete_callback env u dev
               = (call_on_data env f (transfer_buffer u) (actual_length u)
                    (dev\<lparr>state := STATE_IDLE, last_result := RESULT_OK\<rparr>),
                  [Call_on_data f (transfer_buffer u) (actual_length u)])))
     \<and> (status u \<in> {- ENOENT, - ECONNRESET, - ESHUTDOWN} \<longrightarrow>
          bulk_complete_callback env u dev = (dev\<lparr>state := STATE_ERROR\<rparr>, [])
          \<and> last_result (fst (bulk_complete_callback env u dev)) = last_result dev)
     \<and> (status u \<notin> {0, - ENOENT, - ECONNRESET, - ESHUTDOWN} \<longrightarrow>
          bulk_complete_callback env u dev
            = (dev\<lparr>state := STATE_ERROR, last_result := RESULT_INVALID\<rparr>, []))"
  using assms
  by (auto simp add: bulk_complete_callback_def Let_def errno_defs split: option.splits)

theorem bulk_complete_callback_cases_witness:
  "context shutdown_urb = DEV_PTR \<and> state transferring_device = STATE_TRANSFERRING
   \<and> bulk_complete_callback quiet_env shutdown_urb transferring_device
       = (transferring_device\<lparr>state := STATE_ERROR\<rparr>, [])
   \<and> last_result (fst (bulk_complete_callback quiet_env shutdown_urb transferring_device))
       = RESULT_BUSY"
proof -
  have h1: "context shutdown_urb = DEV_PTR" by (simp add: shutdown_urb_def)
  have h2: "state transferring_device = STATE_TRANSFERRING"
    by (simp add: transferring_device_def)
  have h3: "last_result transferring_device = RESULT_BUSY"
    by (simp add: transferring_device_def)
  have h4: "status shutdown_urb = - ESHUTDOWN" by (simp add: shutdown_urb_def)
  show ?thesis
    using h1 h2 h3 h4 bulk_complete_callback_cases [OF h1 h2, of quiet_env]
    by simp
qed

subsection \<open>Opening the device\<close>

text \<open>
  Claim C8: \<open>device_open\<close> on a device in \<open>STATE_IDLE\<close> returns 0 and sets the state
  to \<open>STATE_CONNECTING\<close> between taking and releasing the lock; a registered
  \<open>on_connect\<close> callback is called on that record after \<open>spin_unlock\<close>, and nothing
  is called when none is registered. In any other state it returns \<open>-EBUSY\<close> and
  the record is unchanged.
\<close>

theorem device_open_cases:
  "(state dev = STATE_IDLE \<longrightarrow>
      (case on_connect dev of
         None \<Rightarrow>
           device_open env dev
             = (0, dev\<lparr>state := STATE_CONNECTING\<rparr>, [Spin_lock, Spin_unlock])
       | Some f \<Rightarrow>
           device_open env dev
             = (0, call_on_connect env f (dev\<lparr>state := STATE_CONNECTING\<rparr>),
                [Spin_lock, Spin_unlock, Call_on_connect f])))
   \<and> (state dev \<noteq> STATE_IDLE \<longrightarrow>
        device_open env dev = (- EBUSY, dev, [Spin_lock, Spin_unlock]))"
  by (simp add: device_open_def Let_def split: option.splits)

theorem device_open_cases_witness:
  "state hooked_device = STATE_IDLE
   \<and> device_open quiet_env hooked_device
       = (0, hooked_device\<lparr>state := STATE_CONNECTING\<rparr>,
          [Spin_lock, Spin_unlock, Call_on_connect 1])
   \<and> state connecting_device \<noteq> STATE_IDLE
   \<and> device_open quiet_env connecting_device
       = (- EBUSY, connecting_device, [Spin_lock, Spin_unlock])"
  using device_open_cases [of hooked_device quiet_env]
    device_open_cases [of connecting_device quiet_env]
  by (simp add: hooked_device_def connecting_device_def kzalloc_device_def quiet_env_def)

subsection \<open>The retry policy\<close>

lemma run_ticks_no_reconnect:
  "\<not> auto_reconnect (config dev) \<Longrightarrow> run_ticks envs dev = dev"
  by (induction envs) (simp_all add: device_delayed_work_handler_def)

text \<open>
  One run of the handler on a device in \<open>STATE_ERROR\<close> with \<open>auto_reconnect\<close> set
  ends in \<open>STATE_TRANSFERRING\<close>, not in \<open>STATE_CONNECTING\<close>.
\<close>

theorem tick_ends_transferring:
  "state reconnect_device = STATE_ERROR \<and> auto_reconnect (config reconnect_device)
   \<and> state (fst (device_delayed_work_handler quiet_env reconnect_device)) = STATE_TRANSFERRING
   \<and> state (fst (device_delayed_work_handler quiet_env reconnect_device)) \<noteq> STATE_CONNECTING"
  by (simp add: device_delayed_work_handler_def send_command_def reconnect_device_def
      kzalloc_device_def Let_def)

text \<open>
  Claim C4, amended: one run of \<open>device_delayed_work_handler\<close>. In \<open>STATE_ERROR\<close>
  with \<open>auto_reconnect\<close> set, the run ends in \<open>STATE_TRANSFERRING\<close>: the
  \<open>STATE_CONNECTING\<close> that the handler stores takes the device out of the error
  state, in which \<open>send_command\<close> would refuse it, and the \<open>send_command\<close> call for
  \<open>CMD_RESET\<close> that follows stores \<open>STATE_TRANSFERRING\<close> over it; that call
  submits exactly one URB, the four header bytes \<open>AA FF 00 00\<close> of a zeroed packet.
  Without \<open>auto_reconnect\<close> the run changes nothing, and neither does any number
  of runs. In a state other than \<open>STATE_ERROR\<close> the run changes nothing and calls
  nothing.
\<close>

theorem delayed_work_tick:
  "(state dev = STATE_ERROR \<and> auto_reconnect (config dev) \<longrightarrow>
      device_delayed_work_handler env dev
        = (dev\<lparr>state := STATE_TRANSFERRING,
               tx_buffer := [0xAA, 0xFF, 0, 0] @ replicate 60 0,
               bulk_urb := (bulk_urb dev)
                 \<lparr>transfer_buffer := TX_BUFFER_BYTES, transfer_buffer_length := 4,
                  context := DEV_PTR\<rparr>\<rparr>,
           [Usb_submit_urb
              ((bulk_urb dev)\<lparr>transfer_buffer := TX_BUFFER_BYTES, transfer_buffer_length := 4,
                               context := DEV_PTR\<rparr>)
              ([0xAA, 0xFF, 0, 0] @ replicate 60 0)])
      \<and> send_command env DEV_PTR CMD_RESET None 0 dev = (- EINVAL, dev, []))
   \<and> (\<not> auto_reconnect (config dev) \<longrightarrow>
        device_delayed_work_handler env dev = (dev, []) \<and> run_ticks envs dev = dev)
   \<and> (state dev \<noteq> STATE_ERROR \<longrightarrow> device_delayed_work_handler env dev = (dev, []))"
  by (simp add: device_delayed_work_handler_def send_command_def Let_def build_header_eq
      run_ticks_no_reconnect)


theorem delayed_work_tick_witness:
  "state reconnect_device = STATE_ERROR \<and> auto_reconnect (config reconnect_device)
   \<and> snd (device_delayed_work_handler quiet_env reconnect_device)
       = [Usb_submit_urb
            \<lparr>status = 0, transfer_buffer = TX_BUFFER_BYTES, transfer_buffer_length = 4,
             actual_length = 0, context = DEV_PTR\<rparr>
            ([0xAA, 0xFF, 0, 0] @ replicate 60 0)]
   \<and> state (fst (device_delayed_work_handler quiet_env reconnect_device))
       = STATE_TRANSFERRING
   \<and> \<not> auto_reconnect (config error_device)
   \<and> run_ticks [quiet_env, quiet_env, quiet_env] error_device = error_device"
proof -
  have h1: "state reconnect_device = STATE_ERROR \<and> auto_reconnect (config reconnect_device)"
    by (simp add: reconnect_device_def)
  have h2: "\<not> auto_reconnect (config error_device)"
    by (simp add: error_device_def kzalloc_device_def)
  have u: "bulk_urb reconnect_device
           = \<lparr>status = 0, transfer_buffer = BUF_NULL, transfer_buffer_length = 0,
              actual_length = 0, context = DEV_NULL\<rparr>"
    by (simp add: reconnect_device_def kzalloc_device_def)
  have a: "device_delayed_work_handler quiet_env reconnect_device
        = (reconnect_device\<lparr>state := STATE_TRANSFERRING,
               tx_buffer := [0xAA, 0xFF, 0, 0] @ replicate 60 0,
               bulk_urb := (bulk_urb reconnect_device)
                 \<lparr>transfer_buffer := TX_BUFFER_BYTES, transfer_buffer_length := 4,
                  context := DEV_PTR\<rparr>\<rparr>,
           [Usb_submit_urb
              ((bulk_urb reconnect_device)
                 \<lparr>transfer_buffer := TX_BUFFER_BYTES, transfer_buffer_length := 4,
                  context := DEV_PTR\<rparr>)
              ([0xAA, 0xFF, 0, 0] @ replicate 60 0)])"
    using h1 delayed_work_tick [of reconnect_device quiet_env] by blast
  have b: "run_ticks [quiet_env, quiet_env, quiet_env] error_device = error_device"
    using h2 delayed_work_tick [of error_device quiet_env "[quiet_env, quiet_env, quiet_env]"]
    by blast
  show ?thesis
    using h1 h2 b by (simp add: a u)
qed

subsection \<open>The connected state\<close>

lemma no_hooks_probe: "advanced_probe pe = (r, Some dev, tr) \<Longrightarrow> no_hooks dev"
  by (auto simp add: advanced_probe_def no_hooks_def kzalloc_device_def Let_def
      split: if_splits)

lemma no_hooks_send:
  "no_hooks dev \<Longrightarrow> send_command env p cmd data len dev = (r, dev', tr) \<Longrightarrow> no_hooks dev'"
  by (auto simp add: send_command_def no_hooks_def Let_def split: if_splits)

lemma no_hooks_open:
  "no_hooks dev \<Longrightarrow> device_open env dev = (r, dev', tr) \<Longrightarrow> no_hooks dev'"
  by (auto simp add: device_open_def no_hooks_def Let_def split: if_splits)

lemma no_hooks_release:
  "no_hooks dev \<Longrightarrow> device_release env dev = (r, dev', tr) \<Longrightarrow> no_hooks dev'"
  by (auto simp add: device_release_def no_hooks_def)

lemma no_hooks_write:
  "no_hooks dev \<Longrightarrow> device_write env ubuf count dev = (r, dev', tr) \<Longrightarrow> no_hooks dev'"
  by (simp add: device_write_def no_hooks_def)

lemma no_hooks_response:
  "no_hooks dev \<Longrightarrow> process_response packet dev = (res, dev') \<Longrightarrow> no_hooks dev'"
  by (auto simp add: process_response_def no_hooks_def Let_def
      split: option.splits if_splits)

lemma no_hooks_bulk:
  "no_hooks dev \<Longrightarrow> bulk_complete_callback env u dev = (dev', tr) \<Longrightarrow> no_hooks dev'"
  by (auto simp add: bulk_complete_callback_def no_hooks_def Let_def split: if_splits)

lemma no_hooks_ctrl: "no_hooks dev \<Longrightarrow> no_hooks (ctrl_complete_callback u reg dev)"
  by (simp add: ctrl_complete_callback_def no_hooks_def)

lemma no_hooks_work:
  "no_hooks dev \<Longrightarrow> device_work_handler env dev = (dev', tr) \<Longrightarrow> no_hooks dev'"
  by (simp add: device_work_handler_def no_hooks_def)

lemma no_hooks_delayed:
  "no_hooks dev \<Longrightarrow> device_delayed_work_handler env dev = (dev', tr) \<Longrightarrow> no_hooks dev'"
  by (auto simp add: device_delayed_work_handler_def send_command_def no_hooks_def Let_def
      split: if_splits)

lemma reachable_no_hooks: "reachable dev \<Longrightarrow> no_hooks dev"
proof (induction rule: reachable.induct)
  case (r_probe pe r dev tr)
  then show ?case by (rule no_hooks_probe)
next
  case (r_open dev env r dev' tr)
  then show ?case by (blast intro: no_hooks_open)
next
  case (r_release dev env r dev' tr)
  then show ?case by (blast intro: no_hooks_release)
next
  case (r_write dev env ubuf count r dev' tr)
  then show ?case by (blast intro: no_hooks_write)
next
  case (r_send dev env p cmd data len r dev' tr)
  then show ?case by (blast intro: no_hooks_send)
next
  case (r_response dev packet res dev')
  then show ?case by (blast intro: no_hooks_response)
next
  case (r_bulk dev env u dev' tr)
  then show ?case by (blast intro: no_hooks_bulk)
next
  case (r_ctrl dev u reg)
  then show ?case by (blast intro: no_hooks_ctrl)
next
  case (r_work dev env dev' tr)
  then show ?case by (blast intro: no_hooks_work)
next
  case (r_delayed dev env dev' tr)
  then show ?case by (blast intro: no_hooks_delayed)
qed

lemma probe_good: "advanced_probe good_probe = (0, Some probed_device, [Usb_set_intfdata DEV_PTR])"
  by (simp add: advanced_probe_def good_probe_def probed_device_def kzalloc_device_def Let_def)

text \<open>
  Claim C9: no driver function stores \<open>STATE_CONNECTED\<close>, so every record reachable
  from a successful probe has one of the other four states. On such a record
  \<open>device_read\<close> and \<open>device_write\<close> return \<open>-ENODEV\<close> and change nothing, and
  \<open>device_work_handler\<close> takes and releases the lock without calling
  \<open>send_command\<close>.
\<close>

theorem connected_unreachable:
  assumes "reachable dev"
  shows "state dev \<in> {STATE_IDLE, STATE_CONNECTING, STATE_TRANSFERRING, STATE_ERROR}
     \<and> device_read ucap rcount dev = (- ENODEV, [])
     \<and> device_write env ubuf count dev = (- ENODEV, dev, [])
     \<and> device_work_handler env dev = (dev, [Spin_lock, Spin_unlock])"
proof -
  from assms have "no_hooks dev" by (rule reachable_no_hooks)
  then have ns: "state dev \<noteq> STATE_CONNECTED" by (simp add: no_hooks_def)
  then have "state dev \<in> {STATE_IDLE, STATE_CONNECTING, STATE_TRANSFERRING, STATE_ERROR}"
    by (cases "state dev") simp_all
  with ns show ?thesis
    by (simp add: device_read_def device_write_def device_work_handler_def)
qed

theorem connected_unreachable_witness:
  "reachable (probed_device\<lparr>state := STATE_CONNECTING\<rparr>)
   \<and> device_write quiet_env [1, 2, 3] 3 (probed_device\<lparr>state := STATE_CONNECTING\<rparr>)
       = (- ENODEV, probed_device\<lparr>state := STATE_CONNECTING\<rparr>, [])
   \<and> device_read 3 3 (probed_device\<lparr>state := STATE_CONNECTING\<rparr>) = (- ENODEV, [])"
proof -
  have r0: "reachable probed_device"
    using probe_good by (rule r_probe)
  have "device_open quiet_env probed_device
          = (0, probed_device\<lparr>state := STATE_CONNECTING\<rparr>, [Spin_lock, Spin_unlock])"
    by (simp add: device_open_def probed_device_def kzalloc_device_def Let_def)
  with r0 have r1: "reachable (probed_device\<lparr>state := STATE_CONNECTING\<rparr>)"
    by (rule r_open)
  show ?thesis
    using r1 connected_unreachable [OF r1, of 3 3 quiet_env "[1, 2, 3]" 3]
    by simp
qed



subsection \<open>What a submitted packet carries\<close>

lemma send_command_null_data:
  assumes "Usb_submit_urb u pkt \<in> set (snd (snd (send_command env p cmd None len dev)))"
  shows "frame_payload pkt = replicate 60 0"
  using assms
  by (auto simp add: send_command_def Let_def build_header_payload split: if_splits)

lemma device_write_connected:
  assumes "state dev = STATE_CONNECTED" and "min count 60 \<le> length ubuf"
  shows "device_write env ubuf count dev
     = (if usb_submit_urb_ret env < 0 then usb_submit_urb_ret env else int (min count 60),
        dev\<lparr>tx_buffer := build_header CMD_WRITE (min count 60),
            state := STATE_TRANSFERRING,
            bulk_urb := (bulk_urb dev)
               \<lparr>transfer_buffer := TX_BUFFER_BYTES,
                transfer_buffer_length := word_of_nat (4 + min count 60),
                context := DEV_PTR\<rparr>\<rparr>,
        [Usb_submit_urb
           ((bulk_urb dev)
               \<lparr>transfer_buffer := TX_BUFFER_BYTES,
                transfer_buffer_length := word_of_nat (4 + min count 60),
                context := DEV_PTR\<rparr>)
           (build_header CMD_WRITE (min count 60))])"
proof -
  from assms(2) have "length ubuf < count \<longrightarrow> \<not> length ubuf < 60"
    by auto
  with assms show ?thesis
    by (simp add: device_write_def copy_from_user_def send_command_def Let_def)
qed

text \<open>
  Claim C10: every URB that \<open>device_write\<close>, \<open>device_work_handler\<close> or
  \<open>device_delayed_work_handler\<close> submits is submitted with an all-zero payload, since
  each of them calls \<open>send_command\<close> with a NULL data pointer and \<open>send_command\<close>
  zero-fills the packet before it writes the header. For \<open>device_write\<close> on a
  connected device whose user buffer can be read, the one packet submitted is the
  bare header for \<open>CMD_WRITE\<close> and the length \<open>min(count, 60)\<close>: the user bytes
  copied in first are gone, and when \<open>usb_submit_urb\<close> does not fail the call still
  returns \<open>min(count, 60)\<close>.
\<close>

theorem submitted_payload_zero:
  "(\<forall>u pkt. Usb_submit_urb u pkt \<in> set (snd (snd (device_write env ubuf count dev)))
       \<longrightarrow> frame_payload pkt = replicate 60 0)
   \<and> (\<forall>u pkt. Usb_submit_urb u pkt \<in> set (snd (device_work_handler env dev))
       \<longrightarrow> frame_payload pkt = replicate 60 0)
   \<and> (\<forall>u pkt. Usb_submit_urb u pkt \<in> set (snd (device_delayed_work_handler env dev))
       \<longrightarrow> frame_payload pkt = replicate 60 0)
   \<and> (state dev = STATE_CONNECTED \<and> min count 60 \<le> length ubuf \<longrightarrow>
        (\<exists>u. snd (snd (device_write env ubuf count dev))
               = [Usb_submit_urb u (build_header CMD_WRITE (min count 60))])
        \<and> tx_buffer (fst (snd (device_write env ubuf count dev)))
            = build_header CMD_WRITE (min count 60)
        \<and> frame_payload (tx_buffer (fst (snd (device_write env ubuf count dev))))
            = replicate 60 0
        \<and> (0 \<le> usb_submit_urb_ret env
             \<longrightarrow> fst (device_write env ubuf count dev) = int (min count 60)))"
proof -
  have w: "\<forall>u pkt. Usb_submit_urb u pkt \<in> set (snd (snd (device_write env ubuf count dev)))
       \<longrightarrow> frame_payload pkt = replicate 60 0"
    by (auto simp add: device_write_def copy_from_user_def Let_def split_def
        split: if_splits dest: send_command_null_data)
  have h: "\<forall>u pkt. Usb_submit_urb u pkt \<in> set (snd (device_work_handler env dev))
       \<longrightarrow> frame_payload pkt = replicate 60 0"
    by (auto simp add: device_work_handler_def Let_def split_def
        split: if_splits dest: send_command_null_data)
  have d: "\<forall>u pkt. Usb_submit_urb u pkt \<in> set (snd (device_delayed_work_handler env dev))
       \<longrightarrow> frame_payload pkt = replicate 60 0"
    by (auto simp add: device_delayed_work_handler_def Let_def split_def
        split: if_splits dest: send_command_null_data)
  have c: "state dev = STATE_CONNECTED \<and> min count 60 \<le> length ubuf \<longrightarrow>
        (\<exists>u. snd (snd (device_write env ubuf count dev))
               = [Usb_submit_urb u (build_header CMD_WRITE (min count 60))])
        \<and> tx_buffer (fst (snd (device_write env ubuf count dev)))
            = build_header CMD_WRITE (min count 60)
        \<and> frame_payload (tx_buffer (fst (snd (device_write env ubuf count dev))))
            = replicate 60 0
        \<and> (0 \<le> usb_submit_urb_ret env
             \<longrightarrow> fst (device_write env ubuf count dev) = int (min count 60))"
    by (simp add: device_write_connected build_header_payload)
  from w h d c show ?thesis by blast
qed

theorem submitted_payload_zero_witness:
  "state connected_device = STATE_CONNECTED \<and> min 3 60 \<le> length [0x11, 0x22, 0x33 :: u8]
   \<and> 0 \<le> usb_submit_urb_ret quiet_env
   \<and> fst (device_write quiet_env [0x11, 0x22, 0x33] 3 connected_device) = 3
   \<and> frame_payload (tx_buffer (fst (snd
         (device_write quiet_env [0x11, 0x22, 0x33] 3 connected_device))))
       = replicate 60 0"
proof -
  have h1: "state connected_device = STATE_CONNECTED" by (simp add: connected_device_def)
  have h2: "min 3 60 \<le> length [0x11, 0x22, 0x33 :: u8]" by simp
  have h3: "0 \<le> usb_submit_urb_ret quiet_env" by (simp add: quiet_env_def)
  have "fst (device_write quiet_env [0x11, 0x22, 0x33] 3 connected_device) = int (min 3 60)
     \<and> frame_payload (tx_buffer (fst (snd
         (device_write quiet_env [0x11, 0x22, 0x33] 3 connected_device))))
       = replicate 60 0"
    using h1 h2 h3
      submitted_payload_zero [of quiet_env "[0x11, 0x22, 0x33]" 3 connected_device]
    by blast
  then show ?thesis using h1 h2 h3 by simp
qed

subsection \<open>Teardown\<close>

text \<open>
  \<open>async_demo_remove\<close> stops the background task before it cancels the timers, the
  tasklet and the work items, so its calls are not in the order of the specification.
\<close>

theorem remove_stops_task_first:
  "\<not> spec_teardown_order (snd (snd (async_demo_remove demo_device)))"
  by (simp add: spec_teardown_order_def async_demo_remove_def demo_device_def
      List.map_filter_simps)

text \<open>
  Claim C5, amended: \<open>async_demo_remove\<close> clears the running flag, then (when there
  is a background task) stops it and waits for its completion signal, then cancels
  the high-resolution timer, the coarse timer, the tasklet, the one-shot work and the
  periodic work, in that order; it stops no interrupt source and frees nothing.
  \<open>advanced_disconnect\<close> on a device clears the interface data, cancels the
  one-shot and the periodic work, kills the control and the bulk transfer, frees both
  URBs, drops the USB device and frees the device record last. Apart from the
  position of the background task, both follow the order of the specification.
\<close>

theorem teardown_traces:
  "snd (snd (async_demo_remove dev))
     = [Atomic_set_running 0]
       @ (if kthread dev \<noteq> None then [Kthread_stop, Wait_for_completion] else [])
       @ [Hrtimer_cancel, Del_timer_sync, Tasklet_kill,
          Cancel_work_sync, Cancel_delayed_work_sync]
   \<and> spec_teardown_order
        (filter (\<lambda>c. \<not> is_task_stop c) (snd (snd (async_demo_remove dev))))
   \<and> Free_irq \<notin> set (snd (snd (async_demo_remove dev)))
   \<and> Kfree \<notin> set (snd (snd (async_demo_remove dev)))
   \<and> advanced_disconnect DEV_PTR
       = [Usb_set_intfdata DEV_NULL, Cancel_work_sync, Cancel_delayed_work_sync,
          Usb_kill_urb CTRL_URB, Usb_kill_urb BULK_URB,
          Usb_free_urb CTRL_URB, Usb_free_urb BULK_URB, Usb_put_dev, Kfree]
   \<and> spec_teardown_order (advanced_disconnect p)"
  by (simp add: async_demo_remove_def advanced_disconnect_def spec_teardown_order_def
      is_task_stop_def List.map_filter_simps)

theorem teardown_traces_witness:
  "kthread demo_device \<noteq> None
   \<and> snd (snd (async_demo_remove demo_device))
       = [Atomic_set_running 0, Kthread_stop, Wait_for_completion,
          Hrtimer_cancel, Del_timer_sync, Tasklet_kill,
          Cancel_work_sync, Cancel_delayed_work_sync]"
proof -
  have h: "kthread demo_device \<noteq> None" by (simp add: demo_device_def)
  show ?thesis
    using h teardown_traces [of demo_device] by simp
qed


end
